theory Spec2Isabelle
  imports Complex_Main
begin

section \<open>Python values and errors\<close>

text \<open>
  Python integers are unbounded and are modelled by \<^typ>\<open>int\<close>.  Exceptions are
  values: a function that can raise returns \<open>py_error + 'a\<close>, with \<open>Inl\<close> for
  the exception.
\<close>

datatype py_error = KeyError | ValueError | ZeroDivisionError | CsvError

section \<open>The per-question timer of \<open>MTU/mock_test_timer_gui.py\<close>\<close>

text \<open>
  \<open>question_data[q]\<close> is a dictionary with the entries \<open>timer_running\<close>,
  \<open>elapsed_seconds\<close> and \<open>beep_played\<close> (the other entries hold widgets and
  Tk variables and are never read by the timer code).  The application state
  keeps, besides \<open>question_data\<close> and the session's
  \<open>max_time_per_question\<close>, two things the code hands to its environment:
  \<open>after_queue\<close>, the callbacks registered by
  \<open>root.after(1000, self.run_question_timer, q)\<close> that have not fired yet (all
  have the same delay, so they fire in the order of registration), and
  \<open>beeps\<close>, the questions for which \<open>winsound.Beep\<close> has been called, oldest
  first.
\<close>

record question =
  timer_running :: bool
  elapsed_seconds :: int
  beep_played :: bool

record gui =
  question_data :: "int \<rightharpoonup> question"
  max_time_per_question :: int
  after_queue :: "int list"
  beeps :: "int list"

definition create_question_block :: "int \<Rightarrow> gui \<Rightarrow> gui" where
  "create_question_block question_num g =
     g\<lparr>question_data := (question_data g)(question_num \<mapsto>
          \<lparr>timer_running = False, elapsed_seconds = 0, beep_played = False\<rparr>)\<rparr>"

definition show_75_questions_interface :: "gui \<Rightarrow> gui" where
  "show_75_questions_interface g =
     fold create_question_block [1..75] (g\<lparr>question_data := Map.empty\<rparr>)"

text \<open>
  \<open>start_session\<close> stores the chosen limit in the session and shows the 75
  question blocks; nothing is scheduled for a question until its timer is
  started.
\<close>

definition start_session :: "int \<Rightarrow> gui" where
  "start_session max_time =
     show_75_questions_interface
       \<lparr>question_data = Map.empty, max_time_per_question = max_time,
        after_queue = [], beeps = []\<rparr>"

text \<open>
  \<open>run_question_timer\<close>: one tick.  The comparison
  \<open>elapsed_seconds / 60 > max_minutes\<close> is Python's true division; it is
  taken over the rationals.  The call of \<open>winsound.Beep\<close> sits in a
  \<open>try\<close>/\<open>except\<close>, so the tick goes on whether or not the sound could be
  played; \<open>beeps\<close> records the call.  \<open>update_timer_display\<close> only
  repaints labels.
\<close>

definition run_question_timer :: "int \<Rightarrow> gui \<Rightarrow> py_error + gui" where
  "run_question_timer question_num g =
     (case question_data g question_num of
        None \<Rightarrow> Inl KeyError
      | Some d \<Rightarrow>
          if timer_running d then
            let e = elapsed_seconds d + 1;
                elapsed_minutes = (of_int e :: rat) / 60;
                max_minutes = (of_int (max_time_per_question g) :: rat);
                alert = (elapsed_minutes > max_minutes \<and> \<not> beep_played d);
                d' = d\<lparr>elapsed_seconds := e,
                       beep_played := (if alert then True else beep_played d)\<rparr>
            in Inr (g\<lparr>question_data := (question_data g)(question_num \<mapsto> d'),
                      beeps := (if alert then beeps g @ [question_num] else beeps g),
                      after_queue := after_queue g @ [question_num]\<rparr>)
          else Inr g)"

definition start_question_timer :: "int \<Rightarrow> gui \<Rightarrow> py_error + gui" where
  "start_question_timer question_num g =
     (case question_data g question_num of
        None \<Rightarrow> Inl KeyError
      | Some d \<Rightarrow>
          if \<not> timer_running d then
            run_question_timer question_num
              (g\<lparr>question_data := (question_data g)(question_num \<mapsto>
                    d\<lparr>timer_running := True, beep_played := False\<rparr>)\<rparr>)
          else Inr g)"

definition pause_question_timer :: "int \<Rightarrow> gui \<Rightarrow> py_error + gui" where
  "pause_question_timer question_num g =
     (case question_data g question_num of
        None \<Rightarrow> Inl KeyError
      | Some d \<Rightarrow>
          Inr (g\<lparr>question_data := (question_data g)(question_num \<mapsto>
                     d\<lparr>timer_running := False\<rparr>)\<rparr>))"

text \<open>
  \<open>stop_question_timer\<close> stops the question and starts the timer of the next
  one, when there is a next one.
\<close>

definition stop_question_timer :: "int \<Rightarrow> gui \<Rightarrow> py_error + gui" where
  "stop_question_timer question_num g =
     (case question_data g question_num of
        None \<Rightarrow> Inl KeyError
      | Some d \<Rightarrow>
          let g1 = g\<lparr>question_data := (question_data g)(question_num \<mapsto>
                        d\<lparr>timer_running := False\<rparr>)\<rparr>;
              next_question = question_num + 1
          in if next_question \<le> 75 \<and> question_data g1 next_question \<noteq> None
             then start_question_timer next_question g1
             else Inr g1)"

text \<open>
  The Tk main loop: a button press calls one of the three handlers; a tick
  takes the oldest registered callback off the queue and runs it (with nothing
  registered, nothing runs).
\<close>

datatype event = Start int | Pause int | Stop int | Tick

fun step :: "gui \<Rightarrow> event \<Rightarrow> py_error + gui" where
  "step g (Start q) = start_question_timer q g"
| "step g (Pause q) = pause_question_timer q g"
| "step g (Stop q) = stop_question_timer q g"
| "step g Tick =
     (case after_queue g of
        [] \<Rightarrow> Inr g
      | q # rest \<Rightarrow> run_question_timer q (g\<lparr>after_queue := rest\<rparr>))"

fun run :: "gui \<Rightarrow> event list \<Rightarrow> py_error + gui" where
  "run g [] = Inr g"
| "run g (ev # evs) =
     (case step g ev of Inl e \<Rightarrow> Inl e | Inr g' \<Rightarrow> run g' evs)"

text \<open>What a timer reports: the \<open>elapsed_seconds\<close> entry of its question.\<close>

definition elapsed_of :: "py_error + gui \<Rightarrow> int \<Rightarrow> int option" where
  "elapsed_of r q =
     (case r of
        Inl e \<Rightarrow> None
      | Inr g \<Rightarrow> map_option elapsed_seconds (question_data g q))"

definition running_of :: "py_error + gui \<Rightarrow> int \<Rightarrow> bool option" where
  "running_of r q =
     (case r of
        Inl e \<Rightarrow> None
      | Inr g \<Rightarrow> map_option timer_running (question_data g q))"


text \<open>
  \<open>starts q ev\<close>: the event calls \<open>start_question_timer\<close> for question
  \<open>q\<close>, either from the question's own start button or from the stop
  button of the question before it.
\<close>

fun starts :: "int \<Rightarrow> event \<Rightarrow> bool" where
  "starts q (Start n) = (n = q)"
| "starts q (Stop n) = (n + 1 = q)"
| "starts q (Pause n) = False"
| "starts q Tick = False"

section \<open>Text: \<open>str\<close> methods, \<open>int(str)\<close> and \<open>str(int)\<close>\<close>

text \<open>
  Text is modelled as ASCII: a \<^typ>\<open>string\<close> is the list of the characters
  of a Python \<open>str\<close>.  \<open>py_isspace\<close> lists the ASCII characters that
  \<open>str.strip()\<close> and \<open>int()\<close> treat as white space.
\<close>

definition CR :: char where "CR = CHR 0x0D"
definition LF :: char where "LF = CHR 0x0A"

definition py_isspace :: "char \<Rightarrow> bool" where
  "py_isspace c =
     (c \<in> set [CHR 0x09, CHR 0x0A, CHR 0x0B, CHR 0x0C, CHR 0x0D,
                CHR 0x1C, CHR 0x1D, CHR 0x1E, CHR 0x1F, CHR 0x20])"

definition py_strip :: "string \<Rightarrow> string" where
  "py_strip s = rev (dropWhile py_isspace (rev (dropWhile py_isspace s)))"

definition py_lower_char :: "char \<Rightarrow> char" where
  "py_lower_char c =
     (case map_of (zip ''ABCDEFGHIJKLMNOPQRSTUVWXYZ'' ''abcdefghijklmnopqrstuvwxyz'') c of
        None \<Rightarrow> c
      | Some l \<Rightarrow> l)"

definition py_lower :: "string \<Rightarrow> string" where
  "py_lower s = map py_lower_char s"

fun py_split :: "char \<Rightarrow> string \<Rightarrow> string list" where
  "py_split sep [] = [[]]"
| "py_split sep (c # cs) =
     (if c = sep then [] # py_split sep cs
      else (case py_split sep cs of
              [] \<Rightarrow> [[c]]
            | piece # pieces \<Rightarrow> (c # piece) # pieces))"

fun py_join :: "string \<Rightarrow> string list \<Rightarrow> string" where
  "py_join sep [] = []"
| "py_join sep [x] = x"
| "py_join sep (x # y # ys) = x @ sep @ py_join sep (y # ys)"

definition digit_of :: "char \<Rightarrow> int option" where
  "digit_of c = map_of (zip ''0123456789'' [0, 1, 2, 3, 4, 5, 6, 7, 8, 9]) c"

text \<open>
  \<open>int(s)\<close> for a \<open>str\<close>: white space around the number is dropped, one sign
  is allowed, then decimal digits, where single underscores may stand between
  digits.  Anything else raises \<open>ValueError\<close>.
\<close>

fun int_digits :: "string \<Rightarrow> int \<Rightarrow> int option" where
  "int_digits [] acc = Some acc"
| "int_digits (c # cs) acc =
     (case digit_of c of
        Some v \<Rightarrow> int_digits cs (10 * acc + v)
      | None \<Rightarrow>
          if c = CHR ''_'' then
            (case cs of
               [] \<Rightarrow> None
             | d # ds \<Rightarrow>
                 (case digit_of d of
                    Some v \<Rightarrow> int_digits ds (10 * acc + v)
                  | None \<Rightarrow> None))
          else None)"

definition int_body :: "string \<Rightarrow> int option" where
  "int_body b =
     (case b of
        [] \<Rightarrow> None
      | c # cs \<Rightarrow>
          (case digit_of c of
             Some v \<Rightarrow> int_digits cs v
           | None \<Rightarrow> None))"

definition py_int :: "string \<Rightarrow> py_error + int" where
  "py_int s =
     (let t = py_strip s;
          r = (case t of
                 [] \<Rightarrow> None
               | c # cs \<Rightarrow>
                   if c = CHR ''-'' then map_option uminus (int_body cs)
                   else if c = CHR ''+'' then int_body cs
                   else int_body t)
      in case r of None \<Rightarrow> Inl ValueError | Some v \<Rightarrow> Inr v)"

definition digit_char :: "nat \<Rightarrow> char" where
  "digit_char n = ''0123456789'' ! (n mod 10)"

fun str_nat :: "nat \<Rightarrow> string" where
  "str_nat n =
     (if n < 10 then [digit_char n]
      else str_nat (n div 10) @ [digit_char (n mod 10)])"

definition py_str :: "int \<Rightarrow> string" where
  "py_str i = (if i < 0 then CHR ''-'' # str_nat (nat (- i)) else str_nat (nat i))"

text \<open>
  Python floats are taken as the exact rationals they approximate; rounding to
  double precision and overflow are outside the model.  \<open>int(x)\<close> of a float
  truncates towards zero; \<open>a / b\<close> raises \<open>ZeroDivisionError\<close> for
  \<open>b = 0\<close>; the format \<open>.1f\<close> rounds to one decimal, ties to even.
\<close>

definition py_int_of_float :: "rat \<Rightarrow> int" where
  "py_int_of_float x = (if 0 \<le> x then \<lfloor>x\<rfloor> else \<lceil>x\<rceil>)"

definition py_truediv :: "int \<Rightarrow> int \<Rightarrow> py_error + rat" where
  "py_truediv a b = (if b = 0 then Inl ZeroDivisionError else Inr (of_int a / of_int b))"

definition round_half_even :: "rat \<Rightarrow> int" where
  "round_half_even y =
     (let f = \<lfloor>y\<rfloor>; r = y - of_int f
      in if r < 1 / 2 then f else if 1 / 2 < r then f + 1
         else if even f then f else f + 1)"

definition fmt_1f :: "rat \<Rightarrow> string" where
  "fmt_1f x =
     (let t = round_half_even (\<bar>x\<bar> * 10)
      in (if x < 0 then ''-'' else []) @ py_str (t div 10) @ ''.'' @ py_str (t mod 10))"

section \<open>The log file of \<open>study_timer.py\<close>\<close>

text \<open>
  \<open>csv.writer(f).writerow(row)\<close> with the default dialect: a field that
  holds a comma, a double quote or a line break is put in double quotes, with
  its quotes doubled; the fields are joined by commas and the row ends with
  CR LF.  A row that consists of one empty field is written as two quotes.
  The caller passes the fields as text (\<open>writerow\<close> applies \<open>str\<close> to a
  number).
\<close>

definition DQUOTE :: char where "DQUOTE = CHR 0x22"

definition needs_quoting :: "string \<Rightarrow> bool" where
  "needs_quoting f = list_ex (\<lambda>c. c = CHR '','' \<or> c = DQUOTE \<or> c = CR \<or> c = LF) f"

definition csv_field :: "string \<Rightarrow> string" where
  "csv_field f =
     (if needs_quoting f
      then [DQUOTE] @ concat (map (\<lambda>c. if c = DQUOTE then [DQUOTE, DQUOTE] else [c]) f) @ [DQUOTE]
      else f)"

definition writerow :: "string list \<Rightarrow> string" where
  "writerow row =
     (if row = [[]] then [DQUOTE, DQUOTE] else py_join '','' (map csv_field row))
     @ [CR, LF]"

definition CSV_HEADERS :: "string list" where
  "CSV_HEADERS =
     [''datetime'', ''session_wall_seconds'', ''questions_started'',
      ''questions_attempted'', ''questions_correct'',
      ''per_question_durations_seconds'']"

definition DEFAULT_DURATION_SECONDS :: int where
  "DEFAULT_DURATION_SECONDS = 4 * 60"

text \<open>
  The file system maps a path to the content of the file there.  Opening with
  mode \<open>"w"\<close> replaces the content, opening with mode \<open>"a"\<close> writes after the
  content there is (and creates the file when there is none).
\<close>

type_synonym fs = "string \<rightharpoonup> string"

definition ensure_csv :: "string \<Rightarrow> fs \<Rightarrow> fs" where
  "ensure_csv path files =
     (if files path = None then files(path \<mapsto> writerow CSV_HEADERS) else files)"

text \<open>
  \<open>append_session\<close>; \<open>now\<close> is the text of
  \<open>datetime.now().isoformat(sep=" ", timespec="seconds")\<close>.
\<close>

definition append_session ::
  "string \<Rightarrow> string \<Rightarrow> int \<Rightarrow> int \<Rightarrow> int \<Rightarrow> int \<Rightarrow> int list \<Rightarrow> fs \<Rightarrow> fs" where
  "append_session path now wall_seconds started attempted correct durations files =
     (let durations_str = py_join '';'' (map py_str durations);
          old = (case files path of None \<Rightarrow> [] | Some content \<Rightarrow> content)
      in files(path \<mapsto> old @ writerow [now, py_str wall_seconds, py_str started,
                                       py_str attempted, py_str correct, durations_str]))"

text \<open>
  \<open>prompt_int\<close> with an input queue: every round takes the next line from
  the queue.  The lines the user will type are a list; with the list used up
  \<open>iq.get()\<close> waits for ever, which is the result \<open>None\<close>.
\<close>

fun prompt_int :: "int option \<Rightarrow> string list \<Rightarrow> int option" where
  "prompt_int dflt [] = None"
| "prompt_int dflt (s # rest) =
     (if s = [] \<and> dflt \<noteq> None then dflt
      else (case py_int s of
              Inl e \<Rightarrow> prompt_int dflt rest
            | Inr val \<Rightarrow> if val < 0 then prompt_int dflt rest else Some val))"

section \<open>The timer of \<open>study_timer.py\<close>\<close>

text \<open>
  Class \<open>Session\<close>.  Every method that reads \<open>time.monotonic()\<close> takes the
  reading as its argument \<open>now\<close>.
\<close>

record session =
  duration_seconds :: int
  current_start :: "rat option"
  per_question_durations :: "int list"
  started_count :: int

definition Session_init :: "int \<Rightarrow> session" where
  "Session_init duration =
     \<lparr>duration_seconds = duration, current_start = None,
      per_question_durations = [], started_count = 0\<rparr>"

definition Session_start :: "rat \<Rightarrow> session \<Rightarrow> session" where
  "Session_start now s = s\<lparr>current_start := Some now, started_count := started_count s + 1\<rparr>"

definition Session_end :: "rat \<Rightarrow> session \<Rightarrow> int \<times> session" where
  "Session_end now s =
     (case current_start s of
        None \<Rightarrow> (0, s)
      | Some t \<Rightarrow>
          let elapsed = py_int_of_float (now - t)
          in (elapsed, s\<lparr>per_question_durations := per_question_durations s @ [elapsed],
                         current_start := None\<rparr>))"

definition Session_is_running :: "session \<Rightarrow> bool" where
  "Session_is_running s = (current_start s \<noteq> None)"

definition Session_elapsed_since_start :: "rat \<Rightarrow> session \<Rightarrow> int" where
  "Session_elapsed_since_start now s =
     (case current_start s of None \<Rightarrow> 0 | Some t \<Rightarrow> py_int_of_float (now - t))"

text \<open>
  The local variables of \<open>interactive_loop\<close>, and what the loop emits:
  the line that announces the alarm and the calls of \<open>do_beep\<close>.
\<close>

datatype signal = AlarmAnnounced | Beep

record loop_state =
  session :: session
  session_start_wall :: "rat option"
  alarm_active :: bool
  last_beep_time :: rat
  emitted :: "signal list"

definition loop_init :: loop_state where
  "loop_init =
     \<lparr>session = Session_init DEFAULT_DURATION_SECONDS, session_start_wall = None,
      alarm_active = False, last_beep_time = 0, emitted = []\<rparr>"

text \<open>
  One pass of the \<open>while True\<close> loop.  \<open>line\<close> is what \<open>iq.get_nowait()\<close>
  gave (\<open>None\<close> for an empty queue) and \<open>now\<close> the reading of the monotonic
  clock during the pass; the clock moves on in \<open>time.sleep(0.15)\<close> between
  passes.  The result \<open>None\<close> is the \<open>break\<close>.
\<close>

definition on_line :: "string \<Rightarrow> rat \<Rightarrow> loop_state \<Rightarrow> loop_state" where
  "on_line line now st =
     (if line = [] then
        (if \<not> Session_is_running (session st) then
           st\<lparr>session_start_wall :=
                 (case session_start_wall st of None \<Rightarrow> Some now | Some w \<Rightarrow> Some w),
              session := Session_start now (session st)\<rparr>
         else
           st\<lparr>session := Session_start now (snd (Session_end now (session st))),
              alarm_active := False\<rparr>)
      else st)"

definition check_alarm :: "rat \<Rightarrow> loop_state \<Rightarrow> loop_state" where
  "check_alarm now st =
     (if Session_is_running (session st)
         \<and> duration_seconds (session st) \<le> Session_elapsed_since_start now (session st)
      then
        let st1 = (if \<not> alarm_active st
                   then st\<lparr>alarm_active := True, last_beep_time := 0,
                           emitted := emitted st @ [AlarmAnnounced]\<rparr>
                   else st)
        in if 1 \<le> now - last_beep_time st1
           then st1\<lparr>emitted := emitted st1 @ [Beep], last_beep_time := now\<rparr>
           else st1
      else st)"

definition loop_pass :: "string \<Rightarrow> string option \<Rightarrow> rat \<Rightarrow> loop_state \<Rightarrow> loop_state option" where
  "loop_pass exit_letter line now st =
     (case line of
        None \<Rightarrow> Some (check_alarm now st)
      | Some l \<Rightarrow>
          if py_lower (py_strip l) = py_lower exit_letter then None
          else Some (check_alarm now (on_line l now st)))"

text \<open>
  The loop runs until the exit letter is entered or Ctrl+C is pressed.  Its
  input is the list of its passes; a list that ends before the loop is left
  describes a loop that is still running, with no result yet.
\<close>

datatype pass_input = Poll "string option" rat | CtrlC

fun run_loop :: "string \<Rightarrow> loop_state \<Rightarrow> pass_input list \<Rightarrow> loop_state option" where
  "run_loop exit_letter st [] = None"
| "run_loop exit_letter st (CtrlC # rest) = Some st"
| "run_loop exit_letter st (Poll line now # rest) =
     (case loop_pass exit_letter line now st of
        None \<Rightarrow> Some st
      | Some st' \<Rightarrow> run_loop exit_letter st' rest)"

text \<open>
  The end of \<open>interactive_loop\<close>: \<open>end_clock\<close> is the clock reading after
  the loop, \<open>answers\<close> the lines typed from then on, \<open>now\<close> the date and time
  for the log row.  The result is the file system afterwards, or \<open>None\<close>
  when the question for the wrong answers is never answered.  The summary that
  is printed last (\<open>compute_and_print_stats\<close>, below) writes no file.  The
  parameter \<open>subject\<close> is only printed and is left out.
\<close>

definition finalize ::
  "string \<Rightarrow> loop_state \<Rightarrow> rat \<Rightarrow> string list \<Rightarrow> string \<Rightarrow> fs \<Rightarrow> fs option" where
  "finalize csv_path st end_clock answers now files =
     (let wall_seconds = (case session_start_wall st of
                            None \<Rightarrow> 0
                          | Some w \<Rightarrow> py_int_of_float (end_clock - w));
          attempted = int (length (per_question_durations (session st)));
          started = started_count (session st)
      in if attempted = 0 then Some files
         else (case prompt_int None answers of
                 None \<Rightarrow> None
               | Some wrong \<Rightarrow>
                   let correct = max 0 (attempted - wrong)
                   in Some (append_session csv_path now wall_seconds started attempted
                              correct (per_question_durations (session st)) files)))"

definition interactive_loop ::
  "string \<Rightarrow> string \<Rightarrow> pass_input list \<Rightarrow> rat \<Rightarrow> string list \<Rightarrow> string \<Rightarrow> fs \<Rightarrow> fs option" where
  "interactive_loop csv_path exit_letter passes end_clock answers now files =
     (case run_loop exit_letter loop_init passes of
        None \<Rightarrow> None
      | Some st \<Rightarrow> finalize csv_path st end_clock answers now files)"

section \<open>Reading the log: \<open>csv.DictReader\<close>\<close>

text \<open>
  The file is opened with \<open>newline=""\<close>: a line ends after LF, after CR LF,
  or after a CR that no LF follows, and keeps its line end.
\<close>

fun file_lines :: "string \<Rightarrow> string \<Rightarrow> string list" where
  "file_lines cur [] = (if cur = [] then [] else [cur])"
| "file_lines cur (c # cs) =
     (if c = LF then (cur @ [c]) # file_lines [] cs
      else if c = CR then
        (case cs of
           [] \<Rightarrow> [cur @ [c]]
         | d # ds \<Rightarrow>
             if d = LF then (cur @ [c, d]) # file_lines [] ds
             else (cur @ [c]) # file_lines [] cs)
      else file_lines (cur @ [c]) cs)"

text \<open>
  The reader of the \<open>csv\<close> module with the default dialect (comma, double
  quote, doubled quotes inside a quoted field, not strict) is a state machine
  that is fed the characters of a line and then an end-of-line mark, here
  \<open>None\<close>.  The limit on the size of a field is left out.
\<close>

datatype parse_state =
  START_RECORD | START_FIELD | IN_FIELD | IN_QUOTED_FIELD
  | QUOTE_IN_QUOTED_FIELD | EAT_CRNL

record parser =
  pstate :: parse_state
  pfields :: "string list"
  pfield :: string

definition parse_reset :: parser where
  "parse_reset = \<lparr>pstate = START_RECORD, pfields = [], pfield = []\<rparr>"

definition parse_save_field :: "parser \<Rightarrow> parser" where
  "parse_save_field p = p\<lparr>pfields := pfields p @ [pfield p], pfield := []\<rparr>"

definition parse_add_char :: "char \<Rightarrow> parser \<Rightarrow> parser" where
  "parse_add_char c p = p\<lparr>pfield := pfield p @ [c]\<rparr>"

definition is_line_end :: "char option \<Rightarrow> bool" where
  "is_line_end c = (c = None \<or> c = Some LF \<or> c = Some CR)"

definition after_line_end :: "char option \<Rightarrow> parse_state" where
  "after_line_end c = (if c = None then START_RECORD else EAT_CRNL)"

definition start_field :: "char option \<Rightarrow> parser \<Rightarrow> parser" where
  "start_field c p =
     (if is_line_end c then (parse_save_field p)\<lparr>pstate := after_line_end c\<rparr>
      else if c = Some DQUOTE then p\<lparr>pstate := IN_QUOTED_FIELD\<rparr>
      else if c = Some (CHR '','') then (parse_save_field p)\<lparr>pstate := START_FIELD\<rparr>
      else (parse_add_char (the c) p)\<lparr>pstate := IN_FIELD\<rparr>)"

definition parse_process_char :: "char option \<Rightarrow> parser \<Rightarrow> py_error + parser" where
  "parse_process_char c p =
     (case pstate p of
        START_RECORD \<Rightarrow>
          if c = None then Inr p
          else if is_line_end c then Inr (p\<lparr>pstate := EAT_CRNL\<rparr>)
          else Inr (start_field c p)
      | START_FIELD \<Rightarrow> Inr (start_field c p)
      | IN_FIELD \<Rightarrow>
          if is_line_end c then Inr ((parse_save_field p)\<lparr>pstate := after_line_end c\<rparr>)
          else if c = Some (CHR '','') then Inr ((parse_save_field p)\<lparr>pstate := START_FIELD\<rparr>)
          else Inr (parse_add_char (the c) p)
      | IN_QUOTED_FIELD \<Rightarrow>
          if c = None then Inr p
          else if c = Some DQUOTE then Inr (p\<lparr>pstate := QUOTE_IN_QUOTED_FIELD\<rparr>)
          else Inr (parse_add_char (the c) p)
      | QUOTE_IN_QUOTED_FIELD \<Rightarrow>
          if c = Some DQUOTE then Inr ((parse_add_char DQUOTE p)\<lparr>pstate := IN_QUOTED_FIELD\<rparr>)
          else if c = Some (CHR '','') then Inr ((parse_save_field p)\<lparr>pstate := START_FIELD\<rparr>)
          else if is_line_end c then Inr ((parse_save_field p)\<lparr>pstate := after_line_end c\<rparr>)
          else Inr ((parse_add_char (the c) p)\<lparr>pstate := IN_FIELD\<rparr>)
      | EAT_CRNL \<Rightarrow>
          if c = Some LF \<or> c = Some CR then Inr p
          else if c = None then Inr (p\<lparr>pstate := START_RECORD\<rparr>)
          else Inl CsvError)"

fun feed_line :: "string \<Rightarrow> parser \<Rightarrow> py_error + parser" where
  "feed_line [] p = parse_process_char None p"
| "feed_line (c # cs) p =
     (case parse_process_char (Some c) p of
        Inl e \<Rightarrow> Inl e
      | Inr p' \<Rightarrow> feed_line cs p')"

text \<open>
  The rows of the reader: a record is complete when the machine is back in
  \<open>START_RECORD\<close> at the end of a line; at the end of the input a record
  that was begun is given out as it stands.
\<close>

fun reader_rows :: "parser \<Rightarrow> string list \<Rightarrow> py_error + string list list" where
  "reader_rows p [] =
     (if pfield p \<noteq> [] \<or> pstate p = IN_QUOTED_FIELD
      then Inr [pfields (parse_save_field p)] else Inr [])"
| "reader_rows p (l # ls) =
     (case feed_line l p of
        Inl e \<Rightarrow> Inl e
      | Inr p' \<Rightarrow>
          if pstate p' = START_RECORD then
            (case reader_rows parse_reset ls of
               Inl e \<Rightarrow> Inl e
             | Inr rows \<Rightarrow> Inr (pfields p' # rows))
          else reader_rows p' ls)"

definition csv_reader :: "string \<Rightarrow> py_error + string list list" where
  "csv_reader content = reader_rows parse_reset (file_lines [] content)"

text \<open>
  \<open>DictReader\<close>: the first row gives the field names; a row without
  fields is passed over; a row becomes a dictionary from field name to value,
  where a later column of the same name wins and a column the row is too short
  for has the value \<open>None\<close>.  A value is \<open>Some s\<close> for the text \<open>s\<close> and
  \<open>None\<close> for Python's \<open>None\<close>.
\<close>

type_synonym row = "string \<rightharpoonup> string option"

definition dict_row :: "string list \<Rightarrow> string list \<Rightarrow> row" where
  "dict_row fieldnames r =
     map_of (rev (zip fieldnames
                    (map Some r @ replicate (length fieldnames - length r) None)))"

definition DictReader :: "string list list \<Rightarrow> row list" where
  "DictReader rows =
     (case rows of
        [] \<Rightarrow> []
      | fieldnames # rest \<Rightarrow> map (dict_row fieldnames) (filter (\<lambda>r. r \<noteq> []) rest))"

section \<open>The statistics of \<open>study_timer.py\<close>\<close>

text \<open>
  The body of the \<open>try\<close> in the loop over the rows.
  \<open>int(row.get(key, "0") or 0)\<close>: a missing key reads as \<open>"0"\<close>, the value
  \<open>None\<close> and the empty text as the number 0.
\<close>

definition int_field :: "row \<Rightarrow> string \<Rightarrow> py_error + int" where
  "int_field r key =
     (case r key of
        None \<Rightarrow> py_int ''0''
      | Some None \<Rightarrow> Inr 0
      | Some (Some s) \<Rightarrow> if s = [] then Inr 0 else py_int s)"

fun ints_of :: "string list \<Rightarrow> py_error + int list" where
  "ints_of [] = Inr []"
| "ints_of (x # xs) =
     (case py_int x of
        Inl e \<Rightarrow> Inl e
      | Inr v \<Rightarrow> (case ints_of xs of Inl e \<Rightarrow> Inl e | Inr vs \<Rightarrow> Inr (v # vs)))"

definition durations_of :: "row \<Rightarrow> py_error + int list" where
  "durations_of r =
     (let durations_field =
            (case r ''per_question_durations_seconds'' of
               None \<Rightarrow> []
             | Some None \<Rightarrow> []
             | Some (Some s) \<Rightarrow> s)
      in ints_of (filter (\<lambda>x. py_strip x \<noteq> []) (py_split (CHR '';'') durations_field)))"

type_synonym session_entry = "string option \<times> int \<times> int \<times> int list"

definition parse_row :: "row \<Rightarrow> py_error + session_entry" where
  "parse_row r =
     (let date = (case r ''datetime'' of None \<Rightarrow> Some [] | Some v \<Rightarrow> v)
      in case int_field r ''questions_attempted'' of
           Inl e \<Rightarrow> Inl e
         | Inr attempted \<Rightarrow>
             (case int_field r ''questions_correct'' of
                Inl e \<Rightarrow> Inl e
              | Inr correct \<Rightarrow>
                  (case durations_of r of
                     Inl e \<Rightarrow> Inl e
                   | Inr durations \<Rightarrow> Inr (date, attempted, correct, durations))))"

record totals =
  sessions :: "session_entry list"
  all_durations :: "int list"
  total_attempted :: int
  total_correct :: int

definition no_totals :: totals where
  "no_totals = \<lparr>sessions = [], all_durations = [], total_attempted = 0, total_correct = 0\<rparr>"

fun read_rows :: "row list \<Rightarrow> totals \<Rightarrow> totals" where
  "read_rows [] t = t"
| "read_rows (r # rs) t =
     (case parse_row r of
        Inl e \<Rightarrow> read_rows rs t
      | Inr (date, attempted, correct, durations) \<Rightarrow>
          read_rows rs
            (t\<lparr>sessions := sessions t @ [(date, attempted, correct, durations)],
               total_attempted := total_attempted t + attempted,
               total_correct := total_correct t + correct,
               all_durations := all_durations t @ durations\<rparr>))"

text \<open>
  What is printed, one text for each call of \<open>print\<close>.  \<open>min\<close> and \<open>max\<close>
  of an empty list raise \<open>ValueError\<close>.
\<close>

definition py_min :: "int list \<Rightarrow> py_error + int" where
  "py_min xs = (case xs of [] \<Rightarrow> Inl ValueError | y # ys \<Rightarrow> Inr (fold min ys y))"

definition py_max :: "int list \<Rightarrow> py_error + int" where
  "py_max xs = (case xs of [] \<Rightarrow> Inl ValueError | y # ys \<Rightarrow> Inr (fold max ys y))"

definition accuracy_line :: "totals \<Rightarrow> py_error + string list" where
  "accuracy_line t =
     (if 0 < total_attempted t then
        (case py_truediv (total_correct t) (total_attempted t) of
           Inl e \<Rightarrow> Inl e
         | Inr ratio \<Rightarrow> Inr [''Overall accuracy: '' @ fmt_1f (ratio * 100) @ ''%''])
      else Inr [''Overall accuracy: N/A (no attempted questions)''])"

definition duration_lines :: "totals \<Rightarrow> py_error + string list" where
  "duration_lines t =
     (if all_durations t \<noteq> [] then
        (case py_truediv (sum_list (all_durations t)) (int (length (all_durations t))) of
           Inl e \<Rightarrow> Inl e
         | Inr avg_dur \<Rightarrow>
             (case py_min (all_durations t) of
                Inl e \<Rightarrow> Inl e
              | Inr fastest \<Rightarrow>
                  (case py_max (all_durations t) of
                     Inl e \<Rightarrow> Inl e
                   | Inr slowest \<Rightarrow>
                       let late_total =
                             int (length (filter (\<lambda>d. DEFAULT_DURATION_SECONDS < d)
                                            (all_durations t)))
                       in Inr [''Average question duration: '' @ fmt_1f avg_dur @ ''s'',
                               ''Fastest question: '' @ py_str fastest
                                 @ ''s, Slowest question: '' @ py_str slowest @ ''s'',
                               ''Questions finished after '' @ py_str DEFAULT_DURATION_SECONDS
                                 @ ''s: '' @ py_str late_total])))
      else Inr [''No per-question durations recorded yet.''])"

definition session_line :: "session_entry \<Rightarrow> py_error + string" where
  "session_line entry =
     (case entry of (date, attempted, correct, durations) \<Rightarrow>
        (case (if 0 < attempted
               then (case py_truediv correct attempted of
                       Inl e \<Rightarrow> Inl e
                     | Inr ratio \<Rightarrow> Inr (fmt_1f (ratio * 100) @ ''%''))
               else Inr ''N/A'') of
           Inl e \<Rightarrow> Inl e
         | Inr acc_str \<Rightarrow>
             (case (if durations \<noteq> []
                    then (case py_truediv (sum_list durations) (int (length durations)) of
                            Inl e \<Rightarrow> Inl e
                          | Inr avg_q \<Rightarrow> Inr (fmt_1f avg_q @ ''s''))
                    else Inr ''-'') of
                Inl e \<Rightarrow> Inl e
              | Inr avg_q_str \<Rightarrow>
                  Inr ((case date of None \<Rightarrow> ''None'' | Some text \<Rightarrow> text)
                       @ '' | attempted='' @ py_str attempted
                       @ '' correct='' @ py_str correct
                       @ '' acc='' @ acc_str @ '' avg_q='' @ avg_q_str))))"

fun session_lines :: "session_entry list \<Rightarrow> py_error + string list" where
  "session_lines [] = Inr []"
| "session_lines (entry # entries) =
     (case session_line entry of
        Inl e \<Rightarrow> Inl e
      | Inr text \<Rightarrow>
          (case session_lines entries of
             Inl e \<Rightarrow> Inl e
           | Inr texts \<Rightarrow> Inr (text # texts)))"

definition trend_lines :: "totals \<Rightarrow> py_error + string list" where
  "trend_lines t =
     (if sessions t \<noteq> [] then
        (case session_lines (rev (drop (length (sessions t) - 10) (sessions t))) of
           Inl e \<Rightarrow> Inl e
         | Inr texts \<Rightarrow> Inr ((LF # ''Per-session accuracy (most recent first):'') # texts))
      else Inr [])"

definition print_summary :: "totals \<Rightarrow> py_error + string list" where
  "print_summary t =
     (case accuracy_line t of
        Inl e \<Rightarrow> Inl e
      | Inr acc \<Rightarrow>
          (case duration_lines t of
             Inl e \<Rightarrow> Inl e
           | Inr durs \<Rightarrow>
               (case trend_lines t of
                  Inl e \<Rightarrow> Inl e
                | Inr trend \<Rightarrow>
                    Inr ([LF # ''--- Subject summary ---'',
                          ''Sessions recorded: '' @ py_str (int (length (sessions t))),
                          ''Total questions attempted: '' @ py_str (total_attempted t),
                          ''Total correct: '' @ py_str (total_correct t)]
                         @ acc @ durs @ trend
                         @ [''--- end summary ---'' @ [LF]]))))"

text \<open>
  An exception ends the function at once; what was printed before it is not
  part of the result.
\<close>

definition stats_of_rows :: "row list \<Rightarrow> py_error + string list" where
  "stats_of_rows rows = print_summary (read_rows rows no_totals)"

definition compute_and_print_stats :: "string \<Rightarrow> fs \<Rightarrow> py_error + string list" where
  "compute_and_print_stats csv_path files =
     (case files csv_path of
        None \<Rightarrow> Inr [''No CSV found for stats.'']
      | Some content \<Rightarrow>
          (case csv_reader content of
             Inl e \<Rightarrow> Inl e
           | Inr rows \<Rightarrow> stats_of_rows (DictReader rows)))"

section \<open>Runs of the timers\<close>

text \<open>
  A run of a \<open>Session\<close> object: the calls of \<open>start\<close> and \<open>end\<close> made on
  it, each with the clock reading it sees.
\<close>

datatype session_op = SStart rat | SEnd rat

fun session_do :: "session_op \<Rightarrow> session \<Rightarrow> session" where
  "session_do (SStart now) s = Session_start now s"
| "session_do (SEnd now) s = snd (Session_end now s)"

fun op_time :: "session_op \<Rightarrow> rat" where
  "op_time (SStart now) = now"
| "op_time (SEnd now) = now"







section \<open>Notions used to state the properties of the statistics\<close>


text \<open>\<open>mentions w texts\<close>: the word \<open>w\<close> occurs in one of the printed texts.\<close>

fun occurs_in :: "string \<Rightarrow> string \<Rightarrow> bool" where
  "occurs_in w [] = (w = [])"
| "occurs_in w (c # cs) = (take (length w) (c # cs) = w \<or> occurs_in w cs)"

definition mentions :: "string \<Rightarrow> string list \<Rightarrow> bool" where
  "mentions w texts = list_ex (occurs_in w) texts"

section \<open>Properties of the per-question timer\<close>


lemma run_question_timer_frame:
  assumes "run_question_timer n g = Inr g'" "question_data g q = Some d"
  shows "\<exists>d'. question_data g' q = Some d' \<and> elapsed_seconds d \<le> elapsed_seconds d'
           \<and> (if n = q \<and> timer_running d then elapsed_seconds d' = elapsed_seconds d + 1 \<and> timer_running d' else d' = d)"
  using assms
  by (auto simp: run_question_timer_def Let_def split: option.splits if_splits)

lemma run_question_timer_dom:
  assumes "run_question_timer n g = Inr g'"
  shows "dom (question_data g') = dom (question_data g)"
  using assms
  by (auto simp: run_question_timer_def Let_def split: option.splits if_splits)

lemma start_question_timer_frame:
  assumes "start_question_timer n g = Inr g'" "question_data g q = Some d"
  shows "\<exists>d'. question_data g' q = Some d' \<and> elapsed_seconds d \<le> elapsed_seconds d'
           \<and> (if n = q \<and> \<not> timer_running d then elapsed_seconds d' = elapsed_seconds d + 1 \<and> timer_running d' else d' = d)"
  using assms
  by (auto simp: start_question_timer_def run_question_timer_def Let_def split: option.splits if_splits)

lemma start_question_timer_dom:
  assumes "start_question_timer n g = Inr g'"
  shows "dom (question_data g') = dom (question_data g)"
  using assms
  by (auto simp: start_question_timer_def run_question_timer_def Let_def split: option.splits if_splits)


lemma pause_question_timer_frame:
  assumes "pause_question_timer n g = Inr g'" "question_data g q = Some d"
  shows "question_data g' q = Some (if n = q then d\<lparr>timer_running := False\<rparr> else d)"
  using assms
  by (cases "n = q") (auto simp: pause_question_timer_def split: option.splits)

lemma stop_question_timer_frame:
  assumes "stop_question_timer n g = Inr g'" "question_data g q = Some d"
  shows "\<exists>d'. question_data g' q = Some d' \<and> elapsed_seconds d \<le> elapsed_seconds d'
           \<and> (if n = q then d' = d\<lparr>timer_running := False\<rparr>
               else if n + 1 = q \<and> q \<le> 75 \<and> \<not> timer_running d then elapsed_seconds d' = elapsed_seconds d + 1 \<and> timer_running d'
               else d' = d)"
proof -
  obtain dn where dn: "question_data g n = Some dn"
    using assms(1) by (auto simp: stop_question_timer_def split: option.splits)
  define g1 where "g1 = g\<lparr>question_data := (question_data g)(n \<mapsto> dn\<lparr>timer_running := False\<rparr>)\<rparr>"
  have q1: "question_data g1 q = Some (if n = q then d\<lparr>timer_running := False\<rparr> else d)"
    using assms(2) dn by (auto simp: g1_def)
  show ?thesis
  proof (cases "n + 1 \<le> 75 \<and> question_data g1 (n + 1) \<noteq> None")
    case True
    then have "start_question_timer (n + 1) g1 = Inr g'"
      using assms(1) dn by (simp add: stop_question_timer_def g1_def Let_def)
    from start_question_timer_frame[OF this q1] True show ?thesis
      by (cases "n = q"; cases "n + 1 = q") (auto split: if_splits)
  next
    case False
    then have "g' = g1"
      using assms(1) dn by (auto simp add: stop_question_timer_def g1_def Let_def)
    with q1 False assms(2) show ?thesis by (auto simp: g1_def)
  qed
qed



lemma step_frame:
  assumes "step g ev = Inr g'" "question_data g q = Some d"
  shows "\<exists>d'. question_data g' q = Some d' \<and> elapsed_seconds d \<le> elapsed_seconds d'
           \<and> (if \<not> timer_running d \<and> \<not> starts q ev then d' = d else True)"
proof (cases ev)
  case (Start n)
  with assms start_question_timer_frame[of n g g' q d] show ?thesis by (auto split: if_splits)
next
  case (Pause n)
  with assms pause_question_timer_frame[of n g g' q d] show ?thesis by (auto split: if_splits)
next
  case (Stop n)
  with assms stop_question_timer_frame[of n g g' q d] show ?thesis by (auto split: if_splits)
next
  case Tick
  show ?thesis
  proof (cases "after_queue g")
    case Nil
    with Tick assms show ?thesis by simp
  next
    case (Cons n rest)
    with Tick assms have "run_question_timer n (g\<lparr>after_queue := rest\<rparr>) = Inr g'" by simp
    from run_question_timer_frame[OF this, of q d] assms(2) Tick show ?thesis
      by (auto split: if_splits)
  qed
qed

lemma run_frame:
  assumes "run g evs = Inr g'" "question_data g q = Some d"
  shows "\<exists>d'. question_data g' q = Some d' \<and> elapsed_seconds d \<le> elapsed_seconds d'"
  using assms
proof (induction evs arbitrary: g d)
  case Nil
  then show ?case by simp
next
  case (Cons ev evs)
  then obtain g1 where s: "step g ev = Inr g1" and r: "run g1 evs = Inr g'"
    by (auto split: sum.splits)
  from step_frame[OF s Cons.prems(2)] obtain d1 where
    d1: "question_data g1 q = Some d1" "elapsed_seconds d \<le> elapsed_seconds d1" by blast
  from Cons.IH[OF r d1(1)] d1(2) show ?case by force
qed

lemma run_frozen:
  assumes "run g evs = Inr g'" "question_data g q = Some d" "\<not> timer_running d"
    "list_all (\<lambda>ev. \<not> starts q ev) evs"
  shows "question_data g' q = Some d"
  using assms
proof (induction evs arbitrary: g)
  case Nil
  then show ?case by simp
next
  case (Cons ev evs)
  then obtain g1 where s: "step g ev = Inr g1" and r: "run g1 evs = Inr g'"
    by (auto split: sum.splits)
  from step_frame[OF s Cons.prems(2)] Cons.prems(3,4) have "question_data g1 q = Some d"
    by auto
  from Cons.IH[OF r this Cons.prems(3)] Cons.prems(4) show ?case by simp
qed








lemma create_blocks:
  "question_data (fold create_question_block qs g) q =
     (if q \<in> set qs then Some \<lparr>timer_running = False, elapsed_seconds = 0, beep_played = False\<rparr>
      else question_data g q)"
  by (induction qs arbitrary: g) (auto simp: create_question_block_def)

lemma start_session_questions:
  "question_data (start_session m) q =
     (if 1 \<le> q \<and> q \<le> 75 then Some \<lparr>timer_running = False, elapsed_seconds = 0, beep_played = False\<rparr>
      else None)"
  by (simp add: start_session_def show_75_questions_interface_def create_blocks)

lemma step_dom:
  assumes "step g ev = Inr g'"
  shows "dom (question_data g') = dom (question_data g)"
proof (cases ev)
  case (Start n)
  with assms show ?thesis by (simp add: start_question_timer_dom)
next
  case (Pause n)
  with assms show ?thesis
    by (auto simp: pause_question_timer_def split: option.splits if_splits)
next
  case (Stop n)
  with assms obtain dn where dn: "question_data g n = Some dn"
    by (auto simp: stop_question_timer_def split: option.splits)
  define g1 where "g1 = g\<lparr>question_data := (question_data g)(n \<mapsto> dn\<lparr>timer_running := False\<rparr>)\<rparr>"
  have d1: "dom (question_data g1) = dom (question_data g)" using dn by (auto simp: g1_def)
  show ?thesis
  proof (cases "n + 1 \<le> 75 \<and> question_data g1 (n + 1) \<noteq> None")
    case True
    then have "start_question_timer (n + 1) g1 = Inr g'"
      using assms dn Stop by (simp add: stop_question_timer_def g1_def Let_def)
    from start_question_timer_dom[OF this] d1 show ?thesis by simp
  next
    case False
    then have "g' = g1"
      using assms dn Stop by (auto simp add: stop_question_timer_def g1_def Let_def)
    with d1 show ?thesis by simp
  qed
next
  case Tick
  show ?thesis
  proof (cases "after_queue g")
    case Nil
    with Tick assms show ?thesis by simp
  next
    case (Cons n rest)
    with Tick assms have "run_question_timer n (g\<lparr>after_queue := rest\<rparr>) = Inr g'" by simp
    from run_question_timer_dom[OF this] show ?thesis by simp
  qed
qed

lemma run_dom:
  assumes "run g evs = Inr g'"
  shows "dom (question_data g') = dom (question_data g)"
  using assms
proof (induction evs arbitrary: g)
  case Nil
  then show ?case by simp
next
  case (Cons ev evs)
  then obtain g1 where s: "step g ev = Inr g1" and r: "run g1 evs = Inr g'"
    by (auto split: sum.splits)
  from Cons.IH[OF r] step_dom[OF s] show ?case by simp
qed






lemma py_int_of_float_mono: "x \<le> y \<Longrightarrow> py_int_of_float x \<le> py_int_of_float y"
  unfolding py_int_of_float_def
  by (auto intro: floor_mono ceiling_mono order_trans[OF ceiling_mono, of x 0])

lemma py_int_of_float_nonneg: "0 \<le> x \<Longrightarrow> 0 \<le> py_int_of_float x"
  by (simp add: py_int_of_float_def)

lemma session_elapsed_mono:
  assumes "now \<le> now'"
  shows "Session_elapsed_since_start now s \<le> Session_elapsed_since_start now' s"
  using assms by (auto simp: Session_elapsed_since_start_def split: option.splits intro: py_int_of_float_mono)

lemma session_do_prefix:
  "take (length (per_question_durations s)) (per_question_durations (fold session_do ops s))
     = per_question_durations s"
proof (induction ops arbitrary: s)
  case Nil
  then show ?case by simp
next
  case (Cons x ops)
  have "\<exists>e. per_question_durations (session_do x s) = per_question_durations s @ e"
    by (cases x; cases "current_start s") (auto simp: Session_start_def Session_end_def Let_def)
  then obtain e where e: "per_question_durations (session_do x s) = per_question_durations s @ e"
    by blast
  have "take (length (per_question_durations s)) (per_question_durations (fold session_do ops (session_do x s)))
        = take (length (per_question_durations s)) (take (length (per_question_durations (session_do x s)))
            (per_question_durations (fold session_do ops (session_do x s))))"
    by (simp add: e min_def)
  also have "\<dots> = take (length (per_question_durations s)) (per_question_durations (session_do x s))"
    by (simp only: Cons.IH)
  also have "\<dots> = per_question_durations s" by (simp add: e)
  finally show ?case by simp
qed

lemma session_do_nonneg:
  assumes "sorted (map op_time ops)"
    and "\<forall>t0. current_start s = Some t0 \<longrightarrow> (\<forall>t \<in> set (map op_time ops). t0 \<le> t)"
    and "\<forall>e \<in> set (per_question_durations s). 0 \<le> e"
  shows "\<forall>e \<in> set (per_question_durations (fold session_do ops s)). 0 \<le> e"
  using assms
proof (induction ops arbitrary: s)
  case Nil
  then show ?case by simp
next
  case (Cons x ops)
  have srt: "sorted (map op_time ops)" and le: "\<forall>t \<in> set (map op_time ops). op_time x \<le> t"
    using Cons.prems(1) by auto
  have a: "\<forall>t0. current_start (session_do x s) = Some t0 \<longrightarrow> (\<forall>t \<in> set (map op_time ops). t0 \<le> t)"
    using le Cons.prems(2)
    by (cases x) (auto simp: Session_start_def Session_end_def Let_def split: option.splits)
  have b: "\<forall>e \<in> set (per_question_durations (session_do x s)). 0 \<le> e"
    using Cons.prems(2,3)
    by (cases x) (auto simp: Session_start_def Session_end_def Let_def py_int_of_float_nonneg split: option.splits)
  from Cons.IH[OF srt a b] show ?case by simp
qed


lemma run_mono_elapsed:
  assumes "question_data g q = Some d" "\<not> isl (run g evs)"
  shows "\<exists>e'. elapsed_of (run g evs) q = Some e' \<and> elapsed_seconds d \<le> e'"
proof -
  from assms(2) obtain g' where r: "run g evs = Inr g'" by (cases "run g evs") auto
  from run_frame[OF r assms(1)] show ?thesis unfolding r by (auto simp: elapsed_of_def)
qed

lemma run_frozen_elapsed:
  assumes "question_data g q = Some d" "\<not> isl (run g evs)" "\<not> timer_running d"
    "list_all (\<lambda>ev. \<not> starts q ev) evs"
  shows "elapsed_of (run g evs) q = Some (elapsed_seconds d) \<and> running_of (run g evs) q = Some False"
proof -
  from assms(2) obtain g' where r: "run g evs = Inr g'" by (cases "run g evs") auto
  from run_frozen[OF r assms(1,3,4)] assms(3) show ?thesis
    unfolding r by (simp add: elapsed_of_def running_of_def)
qed

lemma run_session_nonneg:
  assumes "elapsed_of (run (start_session m) evs) q = Some e"
  shows "0 \<le> e"
proof -
  from assms obtain g' d' where r: "run (start_session m) evs = Inr g'"
    and q': "question_data g' q = Some d'" and e: "e = elapsed_seconds d'"
    by (auto simp: elapsed_of_def split: sum.splits)
  from run_dom[OF r] q' have "q \<in> dom (question_data (start_session m))" by auto
  then have q0: "question_data (start_session m) q
                   = Some \<lparr>timer_running = False, elapsed_seconds = 0, beep_played = False\<rparr>"
    by (auto simp: start_session_questions split: if_splits)
  from run_frame[OF r q0] q' e show ?thesis by auto
qed

lemma session_init_run_nonneg:
  assumes "sorted (map op_time ops)"
  shows "list_all (\<lambda>e. 0 \<le> e) (per_question_durations (fold session_do ops (Session_init dur)))"
proof -
  have "\<forall>e \<in> set (per_question_durations (fold session_do ops (Session_init dur))). 0 \<le> e"
    by (rule session_do_nonneg[OF assms]) (simp_all add: Session_init_def)
  then show ?thesis by (simp add: list_all_iff)
qed

lemma session_end_running:
  assumes "current_start s = Some t0"
  shows "fst (Session_end now s) = Session_elapsed_since_start now s
       \<and> per_question_durations (snd (Session_end now s))
           = per_question_durations s @ [Session_elapsed_since_start now s]
       \<and> \<not> Session_is_running (snd (Session_end now s))"
  using assms
  by (simp add: Session_end_def Session_elapsed_since_start_def Session_is_running_def Let_def)

text \<open>
  Claim C9.  For the question timers of the popup application: over every run
  of events that raises no exception the elapsed value of a question never
  goes down; while the question is at rest it stays what it is, and the
  question stays at rest, as long as no event starts that question (its own
  start button, or the stop button of the question before it, which starts it
  too); and from the start of a session no elapsed value is negative.  For the
  \<open>Session\<close> timer of the terminal program: between two readings of a clock
  that does not run backwards the elapsed value does not go down and is not
  negative; \<open>end\<close> returns the elapsed value, records it and leaves the
  timer at rest, where the elapsed value reads 0 whatever the clock; a
  recorded value is never changed by later calls; and under a clock that does
  not run backwards no recorded value is negative.  (Starting a new session in
  the popup application builds new question blocks, with new timers; the
  overall session counter of the popup application is not part of this
  statement.)
\<close>

theorem elapsed_monotone_frozen_nonnegative:
  "(question_data g q = Some d \<and> \<not> isl (run g evs) \<longrightarrow>
      (\<exists>e'. elapsed_of (run g evs) q = Some e' \<and> elapsed_seconds d \<le> e')
      \<and> (\<not> timer_running d \<and> list_all (\<lambda>ev. \<not> starts q ev) evs \<longrightarrow>
           elapsed_of (run g evs) q = Some (elapsed_seconds d)
           \<and> running_of (run g evs) q = Some False))
   \<and> (elapsed_of (run (start_session m) evs0) q0 = Some e0 \<longrightarrow> 0 \<le> e0)
   \<and> (now \<le> now' \<longrightarrow>
        Session_elapsed_since_start now s \<le> Session_elapsed_since_start now' s)
   \<and> (current_start s = Some t0 \<and> t0 \<le> now \<longrightarrow> 0 \<le> Session_elapsed_since_start now s)
   \<and> (current_start s = Some t0 \<longrightarrow>
        fst (Session_end now s) = Session_elapsed_since_start now s
        \<and> per_question_durations (snd (Session_end now s))
            = per_question_durations s @ [Session_elapsed_since_start now s]
        \<and> \<not> Session_is_running (snd (Session_end now s)))
   \<and> (\<not> Session_is_running s1 \<longrightarrow> Session_elapsed_since_start now s1 = 0)
   \<and> take (length (per_question_durations s)) (per_question_durations (fold session_do ops s))
        = per_question_durations s
   \<and> (sorted (map op_time ops1) \<longrightarrow>
        list_all (\<lambda>e. 0 \<le> e) (per_question_durations (fold session_do ops1 (Session_init dur))))"
proof -
  have "current_start s = Some t0 \<and> t0 \<le> now \<longrightarrow> 0 \<le> Session_elapsed_since_start now s"
    by (simp add: Session_elapsed_since_start_def py_int_of_float_nonneg)
  moreover have "\<not> Session_is_running s1 \<longrightarrow> Session_elapsed_since_start now s1 = 0"
    by (simp add: Session_is_running_def Session_elapsed_since_start_def)
  ultimately show ?thesis
    using run_mono_elapsed[of g q d evs] run_frozen_elapsed[of g q d evs]
      run_session_nonneg[of m evs0 q0 e0] session_elapsed_mono[of now now' s]
      session_end_running[of s t0 now] session_do_prefix[of s ops]
      session_init_run_nonneg[of ops1 dur]
    by blast
qed

theorem elapsed_monotone_frozen_nonnegative_witness:
  "elapsed_of (run \<lparr>question_data = [1 \<mapsto> \<lparr>timer_running = False, elapsed_seconds = 3, beep_played = False\<rparr>,
                                      2 \<mapsto> \<lparr>timer_running = True, elapsed_seconds = 7, beep_played = False\<rparr>],
                     max_time_per_question = 5, after_queue = [2], beeps = []\<rparr>
                    [Tick, Pause 1, Tick, Stop 1, Tick]) 1 = Some 3
   \<and> elapsed_of (run (start_session 5) [Start 1, Tick, Stop 1]) 2 = Some 1
   \<and> Session_elapsed_since_start (25 / 2)
        \<lparr>duration_seconds = 240, current_start = Some 10, per_question_durations = [30], started_count = 2\<rparr>
      \<le> Session_elapsed_since_start 100
        \<lparr>duration_seconds = 240, current_start = Some 10, per_question_durations = [30], started_count = 2\<rparr>
   \<and> 0 \<le> Session_elapsed_since_start (25 / 2)
        \<lparr>duration_seconds = 240, current_start = Some 10, per_question_durations = [30], started_count = 2\<rparr>
   \<and> per_question_durations (snd (Session_end (25 / 2)
        \<lparr>duration_seconds = 240, current_start = Some 10, per_question_durations = [30], started_count = 2\<rparr>))
      = [30, 2]
   \<and> list_all (\<lambda>e. 0 \<le> e)
        (per_question_durations (fold session_do [SStart 1, SEnd (5 / 2), SStart 3] (Session_init 240)))"
proof -
  let ?g = "\<lparr>question_data = [1 \<mapsto> \<lparr>timer_running = False, elapsed_seconds = 3, beep_played = False\<rparr>,
                               2 \<mapsto> \<lparr>timer_running = True, elapsed_seconds = 7, beep_played = False\<rparr>],
              max_time_per_question = 5, after_queue = [2], beeps = []\<rparr>"
  let ?d = "\<lparr>timer_running = False, elapsed_seconds = 3, beep_played = False\<rparr>"
  let ?evs = "[Tick, Pause 1, Tick, Stop 1, Tick]"
  let ?s = "\<lparr>duration_seconds = 240, current_start = Some (10 :: rat), per_question_durations = [30],
              started_count = 2\<rparr>"
  have h1: "question_data ?g 1 = Some ?d" by simp
  have h2: "\<not> isl (run ?g ?evs)" by code_simp
  have h3: "\<not> timer_running ?d \<and> list_all (\<lambda>ev. \<not> starts 1 ev) ?evs" by simp
  have h4: "elapsed_of (run (start_session 5) [Start 1, Tick, Stop 1]) 2 = Some 1" by code_simp
  have h5: "(25 / 2 :: rat) \<le> 100" by simp
  have h6: "current_start ?s = Some 10 \<and> (10 :: rat) \<le> 25 / 2" by simp
  have h7: "sorted (map op_time [SStart 1, SEnd (5 / 2), SStart 3])" by simp
  have h8: "Session_elapsed_since_start (25 / 2) ?s = 2"
    by code_simp
  from elapsed_monotone_frozen_nonnegative[of ?g 1 ?d ?evs 5 "[Start 1, Tick, Stop 1]" 2 1
        "25 / 2" 100 ?s 10 ?s "[]" "[SStart 1, SEnd (5 / 2), SStart 3]" 240]
    h1 h2 h3 h4 h5 h6 h7 h8
  show ?thesis by simp
qed

section \<open>The overrun alert\<close>
















section \<open>The log file\<close>

lemma digit_char_plain: "digit_char n \<in> set ''0123456789''"
  unfolding digit_char_def by (rule nth_mem) simp

lemma needs_quoting_append: "needs_quoting (a @ b) = (needs_quoting a \<or> needs_quoting b)"
  by (simp add: needs_quoting_def)

lemma needs_quoting_Cons:
  "needs_quoting (c # cs) = (c = CHR '','' \<or> c = DQUOTE \<or> c = CR \<or> c = LF \<or> needs_quoting cs)"
  by (simp add: needs_quoting_def)

lemma digit_unquoted: "\<not> needs_quoting [digit_char n]"
proof -
  have "list_all (\<lambda>c. \<not> needs_quoting [c]) ''0123456789''"
    by (simp add: needs_quoting_def DQUOTE_def CR_def LF_def)
  then show ?thesis using digit_char_plain[of n] unfolding list_all_iff by blast
qed


lemma str_nat_unquoted: "\<not> needs_quoting (str_nat n)"
proof (induction n rule: str_nat.induct)
  case (1 n)
  show ?case
  proof (cases "n < 10")
    case True
    have "str_nat n = [digit_char n]" using True by (subst str_nat.simps) simp
    then show ?thesis by (simp only: digit_unquoted not_False_eq_True)
  next
    case False
    have "str_nat n = str_nat (n div 10) @ [digit_char (n mod 10)]"
      using False by (subst str_nat.simps) simp
    then show ?thesis
      using 1[OF False] digit_unquoted[of "n mod 10"]
      by (simp only: needs_quoting_append) simp
  qed
qed

lemma py_str_unquoted: "\<not> needs_quoting (py_str i)"
proof (cases "i < 0")
  case True
  then have "py_str i = CHR ''-'' # str_nat (nat (- i))" by (simp add: py_str_def)
  then show ?thesis
    using str_nat_unquoted[of "nat (- i)"]
    by (simp only: needs_quoting_Cons) (simp add: DQUOTE_def CR_def LF_def)
next
  case False
  then have "py_str i = str_nat (nat i)" by (simp add: py_str_def)
  then show ?thesis using str_nat_unquoted[of "nat i"] by simp
qed


lemma durations_str_unquoted: "\<not> needs_quoting (py_join '';'' (map py_str ds))"
proof (induction ds rule: induct_list012)
  case 1
  then show ?case by (simp add: needs_quoting_def)
next
  case (2 d)
  then show ?case using py_str_unquoted[of d] by simp
next
  case (3 d e ds)
  have "py_join '';'' (map py_str (d # e # ds))
          = py_str d @ '';'' @ py_join '';'' (map py_str (e # ds))" by simp
  then show ?case using py_str_unquoted[of d] 3(2)
    by (simp only: needs_quoting_append needs_quoting_Cons)
       (simp add: needs_quoting_def DQUOTE_def CR_def LF_def)
qed

lemma unquoted_no_LF: "\<not> needs_quoting f \<Longrightarrow> filter (\<lambda>ch. ch = LF) f = []"
  by (auto simp: needs_quoting_def list_ex_iff filter_empty_conv)


lemma header_row:
  "writerow CSV_HEADERS =
     ''datetime,session_wall_seconds,questions_started,questions_attempted,questions_correct,per_question_durations_seconds''
     @ [CR, LF]"
  by code_simp

lemma session_row_text:
  assumes "\<not> needs_quoting now"
  shows "writerow [now, py_str w, py_str s, py_str a, py_str c, py_join '';'' (map py_str ds)]
           = now @ '','' @ py_str w @ '','' @ py_str s @ '','' @ py_str a @ '','' @ py_str c
             @ '','' @ py_join '';'' (map py_str ds) @ [CR, LF]"
  using assms
  by (simp add: writerow_def csv_field_def py_str_unquoted durations_str_unquoted)

lemma session_row_one_line:
  assumes "\<not> needs_quoting now"
  shows "length (filter (\<lambda>ch. ch = LF)
           (writerow [now, py_str w, py_str s, py_str a, py_str c, py_join '';'' (map py_str ds)])) = 1"
  unfolding session_row_text[OF assms]
  using unquoted_no_LF[OF assms] unquoted_no_LF[OF py_str_unquoted]
    unquoted_no_LF[OF durations_str_unquoted]
  by (simp add: LF_def CR_def)

text \<open>
  Claim C4.  \<open>ensure_csv\<close> on a path without a file creates the file with
  the header row and nothing else; on a path with a file it leaves the whole
  file system as it is; running it twice gives what running it once gives;
  and it touches no other file.
\<close>

theorem ensure_csv_idempotent:
  "(files path = None \<longrightarrow>
      ensure_csv path files path
        = Some (''datetime,session_wall_seconds,questions_started,questions_attempted,questions_correct,per_question_durations_seconds''
                @ [CR, LF]))
   \<and> (files path \<noteq> None \<longrightarrow> ensure_csv path files = files)
   \<and> ensure_csv path (ensure_csv path files) = ensure_csv path files
   \<and> (p \<noteq> path \<longrightarrow> ensure_csv path files p = files p)"
  by (simp add: ensure_csv_def header_row)

theorem ensure_csv_idempotent_witness:
  "ensure_csv ''sessions_math.csv'' Map.empty ''sessions_math.csv''
     = Some (''datetime,session_wall_seconds,questions_started,questions_attempted,questions_correct,per_question_durations_seconds''
             @ [CR, LF])
   \<and> ensure_csv ''sessions_math.csv'' [''sessions_math.csv'' \<mapsto> ''kept''] 
       = [''sessions_math.csv'' \<mapsto> ''kept'']
   \<and> ensure_csv ''sessions_math.csv'' [''sessions_math.csv'' \<mapsto> ''kept''] ''other.csv'' = None"
proof -
  have a: "(Map.empty :: fs) ''sessions_math.csv'' = None" by simp
  have b: "[''sessions_math.csv'' \<mapsto> ''kept''] ''sessions_math.csv'' \<noteq> None" by simp
  have c: "''other.csv'' \<noteq> ''sessions_math.csv''" by simp
  from ensure_csv_idempotent[of Map.empty "''sessions_math.csv''" "''other.csv''"]
    ensure_csv_idempotent[of "[''sessions_math.csv'' \<mapsto> ''kept'']" "''sessions_math.csv''" "''other.csv''"]
    a b c
  show ?thesis by simp
qed

text \<open>
  Claim C3.  After \<open>append_session\<close> the file holds what it held before,
  byte for byte, followed by the one new row; no other file is touched; a
  second row written after a first leaves the first as it was written; and
  when the text of the date needs no quoting the row is the six fields joined
  by commas and closed by CR LF, with the line feed at its end the only one in
  it.
\<close>

theorem append_session_appends:
  "append_session path now w s a c ds files path
     = Some ((case files path of None \<Rightarrow> [] | Some content \<Rightarrow> content)
             @ writerow [now, py_str w, py_str s, py_str a, py_str c, py_join '';'' (map py_str ds)])
   \<and> (p \<noteq> path \<longrightarrow> append_session path now w s a c ds files p = files p)
   \<and> append_session path now2 w2 s2 a2 c2 ds2 (append_session path now w s a c ds files) path
       = Some ((case files path of None \<Rightarrow> [] | Some content \<Rightarrow> content)
               @ writerow [now, py_str w, py_str s, py_str a, py_str c, py_join '';'' (map py_str ds)]
               @ writerow [now2, py_str w2, py_str s2, py_str a2, py_str c2,
                           py_join '';'' (map py_str ds2)])
   \<and> (\<not> needs_quoting now \<longrightarrow>
        writerow [now, py_str w, py_str s, py_str a, py_str c, py_join '';'' (map py_str ds)]
          = now @ '','' @ py_str w @ '','' @ py_str s @ '','' @ py_str a @ '','' @ py_str c
            @ '','' @ py_join '';'' (map py_str ds) @ [CR, LF]
        \<and> length (filter (\<lambda>ch. ch = LF)
             (writerow [now, py_str w, py_str s, py_str a, py_str c,
                        py_join '';'' (map py_str ds)])) = 1)"
proof -
  have "append_session path now w s a c ds files path
     = Some ((case files path of None \<Rightarrow> [] | Some content \<Rightarrow> content)
             @ writerow [now, py_str w, py_str s, py_str a, py_str c, py_join '';'' (map py_str ds)])"
    by (simp add: append_session_def Let_def)
  moreover have "p \<noteq> path \<longrightarrow> append_session path now w s a c ds files p = files p"
    by (simp add: append_session_def Let_def)
  moreover have "append_session path now2 w2 s2 a2 c2 ds2 (append_session path now w s a c ds files) path
       = Some ((case files path of None \<Rightarrow> [] | Some content \<Rightarrow> content)
               @ writerow [now, py_str w, py_str s, py_str a, py_str c, py_join '';'' (map py_str ds)]
               @ writerow [now2, py_str w2, py_str s2, py_str a2, py_str c2,
                           py_join '';'' (map py_str ds2)])"
    by (simp add: append_session_def Let_def)
  ultimately show ?thesis
    using session_row_text[of now w s a c ds] session_row_one_line[of now w s a c ds]
    by blast
qed

theorem append_session_appends_witness:
  "append_session ''m.csv'' ''2025-01-01 10:00:00'' 200 4 3 2 [30, 60, 90]
      [''m.csv'' \<mapsto> ''datetime,x'' @ [CR, LF]] ''m.csv''
     = Some (''datetime,x'' @ [CR, LF] @ ''2025-01-01 10:00:00,200,4,3,2,30;60;90'' @ [CR, LF])
   \<and> append_session ''m.csv'' ''2025-01-01 10:00:00'' 200 4 3 2 [30, 60, 90]
        [''m.csv'' \<mapsto> ''datetime,x'' @ [CR, LF]] ''n.csv'' = None
   \<and> append_session ''m.csv'' ''2025-01-02 11:30:00'' 90 2 1 0 [45]
        (append_session ''m.csv'' ''2025-01-01 10:00:00'' 200 4 3 2 [30, 60, 90]
           [''m.csv'' \<mapsto> ''datetime,x'' @ [CR, LF]]) ''m.csv''
     = Some (''datetime,x'' @ [CR, LF] @ ''2025-01-01 10:00:00,200,4,3,2,30;60;90'' @ [CR, LF]
             @ ''2025-01-02 11:30:00,90,2,1,0,45'' @ [CR, LF])
   \<and> length (filter (\<lambda>ch. ch = LF)
        (writerow [''2025-01-01 10:00:00'', py_str 200, py_str 4, py_str 3, py_str 2,
                   py_join '';'' (map py_str [30, 60, 90])])) = 1"
proof -
  have a: "''n.csv'' \<noteq> ''m.csv''" by simp
  have b: "\<not> needs_quoting ''2025-01-01 10:00:00''" by code_simp
  have c: "writerow [''2025-01-01 10:00:00'', py_str 200, py_str 4, py_str 3, py_str 2,
                     py_join '';'' (map py_str [30, 60, 90])]
             = ''2025-01-01 10:00:00,200,4,3,2,30;60;90'' @ [CR, LF]" by code_simp
  have d: "writerow [''2025-01-02 11:30:00'', py_str 90, py_str 2, py_str 1, py_str 0,
                     py_join '';'' (map py_str [45])]
             = ''2025-01-02 11:30:00,90,2,1,0,45'' @ [CR, LF]" by code_simp
  have e: "[''m.csv'' \<mapsto> ''datetime,x'' @ [CR, LF]] ''m.csv'' = Some (''datetime,x'' @ [CR, LF])"
    by simp
  have f: "[''m.csv'' \<mapsto> ''datetime,x'' @ [CR, LF]] ''n.csv'' = None" by simp
  note T = append_session_appends[of "''m.csv''" "''2025-01-01 10:00:00''" 200 4 3 2 "[30, 60, 90]"
         "[''m.csv'' \<mapsto> ''datetime,x'' @ [CR, LF]]" "''n.csv''"
         "''2025-01-02 11:30:00''" 90 2 1 0 "[45]"]
  from T have "append_session ''m.csv'' ''2025-01-01 10:00:00'' 200 4 3 2 [30, 60, 90]
      [''m.csv'' \<mapsto> ''datetime,x'' @ [CR, LF]] ''m.csv''
     = Some (''datetime,x'' @ [CR, LF] @ ''2025-01-01 10:00:00,200,4,3,2,30;60;90'' @ [CR, LF])"
    unfolding c e by simp
  moreover from T a have "append_session ''m.csv'' ''2025-01-01 10:00:00'' 200 4 3 2 [30, 60, 90]
        [''m.csv'' \<mapsto> ''datetime,x'' @ [CR, LF]] ''n.csv'' = None"
    unfolding f by blast
  moreover from T have "append_session ''m.csv'' ''2025-01-02 11:30:00'' 90 2 1 0 [45]
        (append_session ''m.csv'' ''2025-01-01 10:00:00'' 200 4 3 2 [30, 60, 90]
           [''m.csv'' \<mapsto> ''datetime,x'' @ [CR, LF]]) ''m.csv''
     = Some (''datetime,x'' @ [CR, LF] @ ''2025-01-01 10:00:00,200,4,3,2,30;60;90'' @ [CR, LF]
             @ ''2025-01-02 11:30:00,90,2,1,0,45'' @ [CR, LF])"
    unfolding c d e by simp
  moreover from T b have "length (filter (\<lambda>ch. ch = LF)
        (writerow [''2025-01-01 10:00:00'', py_str 200, py_str 4, py_str 3, py_str 2,
                   py_join '';'' (map py_str [30, 60, 90])])) = 1"
    by blast
  ultimately show ?thesis by blast
qed

lemma prompt_int_nonneg: "prompt_int None answers = Some v \<Longrightarrow> 0 \<le> v"
  by (induction answers) (auto split: sum.splits if_splits)

text \<open>
  Claim C10.  When the loop of \<open>interactive_loop\<close> is left with no
  duration recorded, the file system is left as it is: no row is written.
  With durations recorded and the number \<open>wrong\<close> of wrong answers given to
  \<open>prompt_int\<close>, \<open>wrong\<close> is not negative, the row that is written has
  \<open>correct = max(0, attempted - wrong)\<close>, and \<open>0 \<le> correct \<le> attempted\<close>.
  \<open>prompt_int\<close> gives back the first line that is a non-negative integer:
  a negative number and a line that is no integer are passed over.
\<close>

theorem logged_correct_bounds:
  "(run_loop exit_letter loop_init passes = Some st \<and> per_question_durations (session st) = [] \<longrightarrow>
      interactive_loop csv_path exit_letter passes end_clock answers now files = Some files)
   \<and> (run_loop exit_letter loop_init passes = Some st \<and> per_question_durations (session st) \<noteq> []
        \<and> prompt_int None answers = Some wrong \<longrightarrow>
        0 \<le> wrong
        \<and> 0 \<le> max 0 (int (length (per_question_durations (session st))) - wrong)
        \<and> max 0 (int (length (per_question_durations (session st))) - wrong)
            \<le> int (length (per_question_durations (session st)))
        \<and> interactive_loop csv_path exit_letter passes end_clock answers now files
            = Some (append_session csv_path now
                      (case session_start_wall st of
                         None \<Rightarrow> 0
                       | Some wall \<Rightarrow> py_int_of_float (end_clock - wall))
                      (started_count (session st))
                      (int (length (per_question_durations (session st))))
                      (max 0 (int (length (per_question_durations (session st))) - wrong))
                      (per_question_durations (session st)) files))
   \<and> (py_int answer = Inr v \<and> 0 \<le> v \<longrightarrow> prompt_int None (answer # rest) = Some v)
   \<and> (py_int answer = Inr v \<and> v < 0 \<longrightarrow> prompt_int None (answer # rest) = prompt_int None rest)
   \<and> (py_int answer = Inl e \<longrightarrow> prompt_int None (answer # rest) = prompt_int None rest)"
proof -
  have "prompt_int None answers = Some wrong \<longrightarrow> 0 \<le> wrong"
    using prompt_int_nonneg by blast
  then show ?thesis
    by (auto simp: interactive_loop_def finalize_def Let_def)
qed

theorem logged_correct_bounds_witness:
  "interactive_loop ''m.csv'' ''q''
      [Poll (Some []) 10, Poll (Some []) 40, Poll (Some []) 100, Poll (Some ''q'') 190]
      191 [''x'', ''-1'', ''1''] ''2025-01-01 10:00:00'' Map.empty
     = Some (append_session ''m.csv'' ''2025-01-01 10:00:00'' 181 3 2 1 [30, 60] Map.empty)
   \<and> interactive_loop ''m.csv'' ''q'' [Poll (Some ''q'') 190]
        191 [''1''] ''2025-01-01 10:00:00'' Map.empty = Some Map.empty
   \<and> prompt_int None [''7'', ''8''] = Some 7
   \<and> prompt_int None [''-1'', ''1''] = prompt_int None [''1'']
   \<and> prompt_int None [''x'', ''1''] = prompt_int None [''1'']"
proof -
  let ?st = "\<lparr>session = \<lparr>duration_seconds = 240, current_start = Some 100,
                          per_question_durations = [30, 60], started_count = 3\<rparr>,
               session_start_wall = Some 10, alarm_active = False, last_beep_time = 0,
               emitted = []\<rparr>"
  have a: "run_loop ''q'' loop_init
             [Poll (Some []) 10, Poll (Some []) 40, Poll (Some []) 100, Poll (Some ''q'') 190]
           = Some ?st" by code_simp
  have b: "prompt_int None [''x'', ''-1'', ''1''] = Some 1" by code_simp
  have c: "run_loop ''q'' loop_init [Poll (Some ''q'') 190] = Some loop_init" by code_simp
  have d: "per_question_durations (session loop_init) = []" by code_simp
  have e: "py_int ''7'' = Inr 7 \<and> py_int ''-1'' = Inr (- 1) \<and> py_int ''x'' = Inl ValueError"
    by code_simp
  have f: "py_int_of_float (191 - 10) = 181" by code_simp
  from logged_correct_bounds[of "''q''"
         "[Poll (Some []) 10, Poll (Some []) 40, Poll (Some []) 100, Poll (Some ''q'') 190]"
         ?st "''m.csv''" 191 "[''x'', ''-1'', ''1'']" "''2025-01-01 10:00:00''" Map.empty 1
         "''7''" 7 "[''8'']"]
    logged_correct_bounds[of "''q''" "[Poll (Some ''q'') 190]" loop_init "''m.csv''" 191
         "[''1'']" "''2025-01-01 10:00:00''" Map.empty 1 "''-1''" "- 1" "[''1'']" ValueError]
    logged_correct_bounds[of "''q''" "[Poll (Some ''q'') 190]" loop_init "''m.csv''" 191
         "[''1'']" "''2025-01-01 10:00:00''" Map.empty 1 "''x''" 0 "[''1'']" ValueError]
    a b c d e f
  show ?thesis by simp
qed

section \<open>The statistics\<close>





lemma session_line_ok: "\<exists>text. session_line entry = Inr text"
  by (cases entry) (auto simp: session_line_def py_truediv_def split: sum.splits)

lemma session_lines_ok: "\<exists>texts. session_lines entries = Inr texts"
proof (induction entries)
  case Nil
  then show ?case by simp
next
  case (Cons entry entries)
  from session_line_ok[of entry] obtain ln where "session_line entry = Inr ln" by blast
  with Cons show ?case by auto
qed

lemma accuracy_line_ok: "\<exists>acc. accuracy_line t = Inr acc"
  by (auto simp: accuracy_line_def py_truediv_def)

lemma duration_lines_ok: "\<exists>durs. duration_lines t = Inr durs"
  by (cases "all_durations t") (auto simp: duration_lines_def py_truediv_def py_min_def py_max_def Let_def)

lemma trend_lines_ok: "\<exists>trend. trend_lines t = Inr trend"
  using session_lines_ok[of "rev (drop (length (sessions t) - 10) (sessions t))"]
  by (auto simp: trend_lines_def)

lemma print_summary_shape:
  "\<exists>acc durs trend. accuracy_line t = Inr acc \<and> duration_lines t = Inr durs
     \<and> trend_lines t = Inr trend
     \<and> print_summary t =
         Inr ([LF # ''--- Subject summary ---'',
               ''Sessions recorded: '' @ py_str (int (length (sessions t))),
               ''Total questions attempted: '' @ py_str (total_attempted t),
               ''Total correct: '' @ py_str (total_correct t)]
              @ acc @ durs @ trend @ [''--- end summary ---'' @ [LF]])"
proof -
  from accuracy_line_ok[of t] obtain acc where a: "accuracy_line t = Inr acc" by blast
  from duration_lines_ok[of t] obtain durs where d: "duration_lines t = Inr durs" by blast
  from trend_lines_ok[of t] obtain trend where r: "trend_lines t = Inr trend" by blast
  show ?thesis unfolding print_summary_def a d r by simp
qed















lemma stats_of_rows_shape:
  "\<exists>acc durs trend.
     accuracy_line (read_rows rows no_totals) = Inr acc
     \<and> duration_lines (read_rows rows no_totals) = Inr durs
     \<and> stats_of_rows rows =
         Inr ([LF # ''--- Subject summary ---'',
               ''Sessions recorded: ''
                 @ py_str (int (length (sessions (read_rows rows no_totals)))),
               ''Total questions attempted: ''
                 @ py_str (total_attempted (read_rows rows no_totals)),
               ''Total correct: '' @ py_str (total_correct (read_rows rows no_totals))]
              @ acc @ durs @ trend @ [''--- end summary ---'' @ [LF]])"
  using print_summary_shape[of "read_rows rows no_totals"]
  unfolding stats_of_rows_def by blast








lemma sixty_seconds: "fmt_1f (of_int 180 / of_int 3) = ''60.0''"
  by code_simp

text \<open>
  Claim C6, as the code has it.  When the durations read from the log are 30,
  60 and 90, the statistics print the average \<open>60.0s\<close>, the fastest
  \<open>30s\<close> and the slowest \<open>90s\<close> (and 0 questions over the limit of 240
  seconds), as the sixth to eighth text.  The sum 180 is formed as the
  dividend of the average; it is not printed.
\<close>

theorem durations_30_60_90_reported:
  "(all_durations t = [30, 60, 90] \<longrightarrow>
      sum_list (all_durations t) = 180
      \<and> py_truediv (sum_list (all_durations t)) (int (length (all_durations t))) = Inr 60
      \<and> py_min (all_durations t) = Inr 30
      \<and> py_max (all_durations t) = Inr 90
      \<and> duration_lines t =
          Inr [''Average question duration: 60.0s'',
               ''Fastest question: 30s, Slowest question: 90s'',
               ''Questions finished after 240s: 0''])
   \<and> (all_durations (read_rows rows no_totals) = [30, 60, 90] \<longrightarrow>
        (\<exists>acc trend.
           stats_of_rows rows =
             Inr ([LF # ''--- Subject summary ---'',
                   ''Sessions recorded: ''
                     @ py_str (int (length (sessions (read_rows rows no_totals)))),
                   ''Total questions attempted: ''
                     @ py_str (total_attempted (read_rows rows no_totals)),
                   ''Total correct: '' @ py_str (total_correct (read_rows rows no_totals))]
                  @ acc
                  @ [''Average question duration: 60.0s'',
                     ''Fastest question: 30s, Slowest question: 90s'',
                     ''Questions finished after 240s: 0'']
                  @ trend @ [''--- end summary ---'' @ [LF]])))"
proof -
  have n: "py_str 30 = ''30'' \<and> py_str 90 = ''90'' \<and> py_str 240 = ''240'' \<and> py_str 0 = ''0''"
    by code_simp
  have d: "duration_lines t =
          Inr [''Average question duration: 60.0s'',
               ''Fastest question: 30s, Slowest question: 90s'',
               ''Questions finished after 240s: 0'']"
    if "all_durations t = [30, 60, 90]" for t
    using that sixty_seconds
    by (simp add: duration_lines_def py_truediv_def py_min_def py_max_def
          DEFAULT_DURATION_SECONDS_def n)
  have "all_durations t = [30, 60, 90] \<longrightarrow>
      sum_list (all_durations t) = 180
      \<and> py_truediv (sum_list (all_durations t)) (int (length (all_durations t))) = Inr 60
      \<and> py_min (all_durations t) = Inr 30
      \<and> py_max (all_durations t) = Inr 90"
    by (simp add: py_truediv_def py_min_def py_max_def)
  moreover have "all_durations (read_rows rows no_totals) = [30, 60, 90] \<longrightarrow>
        (\<exists>acc trend.
           stats_of_rows rows =
             Inr ([LF # ''--- Subject summary ---'',
                   ''Sessions recorded: ''
                     @ py_str (int (length (sessions (read_rows rows no_totals)))),
                   ''Total questions attempted: ''
                     @ py_str (total_attempted (read_rows rows no_totals)),
                   ''Total correct: '' @ py_str (total_correct (read_rows rows no_totals))]
                  @ acc
                  @ [''Average question duration: 60.0s'',
                     ''Fastest question: 30s, Slowest question: 90s'',
                     ''Questions finished after 240s: 0'']
                  @ trend @ [''--- end summary ---'' @ [LF]]))"
  proof
    assume h: "all_durations (read_rows rows no_totals) = [30, 60, 90]"
    from stats_of_rows_shape[of rows] obtain acc durs trend where
      du: "duration_lines (read_rows rows no_totals) = Inr durs" and
      st: "stats_of_rows rows =
         Inr ([LF # ''--- Subject summary ---'',
               ''Sessions recorded: ''
                 @ py_str (int (length (sessions (read_rows rows no_totals)))),
               ''Total questions attempted: ''
                 @ py_str (total_attempted (read_rows rows no_totals)),
               ''Total correct: '' @ py_str (total_correct (read_rows rows no_totals))]
              @ acc @ durs @ trend @ [''--- end summary ---'' @ [LF]])"
      by blast
    from du d[OF h] have "durs = [''Average question duration: 60.0s'',
               ''Fastest question: 30s, Slowest question: 90s'',
               ''Questions finished after 240s: 0'']" by (simp only: sum.inject)
    with st show "\<exists>acc trend.
           stats_of_rows rows =
             Inr ([LF # ''--- Subject summary ---'',
                   ''Sessions recorded: ''
                     @ py_str (int (length (sessions (read_rows rows no_totals)))),
                   ''Total questions attempted: ''
                     @ py_str (total_attempted (read_rows rows no_totals)),
                   ''Total correct: '' @ py_str (total_correct (read_rows rows no_totals))]
                  @ acc
                  @ [''Average question duration: 60.0s'',
                     ''Fastest question: 30s, Slowest question: 90s'',
                     ''Questions finished after 240s: 0'']
                  @ trend @ [''--- end summary ---'' @ [LF]])" by blast
  qed
  ultimately show ?thesis using d[of t] by blast
qed

theorem durations_30_60_90_reported_witness:
  "all_durations (read_rows
      [dict_row CSV_HEADERS [''2025-01-01 10:00:00'', ''95'', ''2'', ''2'', ''1'', ''30;60''],
       dict_row CSV_HEADERS [''2025-01-02 10:00:00'', ''95'', ''1'', ''1'', ''1'', ''90'']]
      no_totals) = [30, 60, 90]
   \<and> duration_lines (read_rows
        [dict_row CSV_HEADERS [''2025-01-01 10:00:00'', ''95'', ''2'', ''2'', ''1'', ''30;60''],
         dict_row CSV_HEADERS [''2025-01-02 10:00:00'', ''95'', ''1'', ''1'', ''1'', ''90'']]
        no_totals)
      = Inr [''Average question duration: 60.0s'',
             ''Fastest question: 30s, Slowest question: 90s'',
             ''Questions finished after 240s: 0'']"
proof -
  let ?rows = "[dict_row CSV_HEADERS [''2025-01-01 10:00:00'', ''95'', ''2'', ''2'', ''1'', ''30;60''],
       dict_row CSV_HEADERS [''2025-01-02 10:00:00'', ''95'', ''1'', ''1'', ''1'', ''90'']]"
  have h: "all_durations (read_rows ?rows no_totals) = [30, 60, 90]" by code_simp
  from durations_30_60_90_reported[of "read_rows ?rows no_totals" ?rows] h
  show ?thesis by blast
qed

text \<open>
  The claim as it is written fails in its last part: for a log with one
  session of durations 30, 60 and 90 the whole output is the following, and
  the number 180 is nowhere in it.
\<close>

theorem sum_of_durations_not_reported_counterexample:
  "compute_and_print_stats ''m.csv''
     (append_session ''m.csv'' ''2025-01-01 10:00:00'' 200 4 3 2 [30, 60, 90]
        (ensure_csv ''m.csv'' Map.empty))
     = Inr [LF # ''--- Subject summary ---'', ''Sessions recorded: 1'',
            ''Total questions attempted: 3'', ''Total correct: 2'',
            ''Overall accuracy: 66.7%'', ''Average question duration: 60.0s'',
            ''Fastest question: 30s, Slowest question: 90s'',
            ''Questions finished after 240s: 0'',
            LF # ''Per-session accuracy (most recent first):'',
            ''2025-01-01 10:00:00 | attempted=3 correct=2 acc=66.7% avg_q=60.0s'',
            ''--- end summary ---'' @ [LF]]
   \<and> \<not> mentions ''180''
         [LF # ''--- Subject summary ---'', ''Sessions recorded: 1'',
          ''Total questions attempted: 3'', ''Total correct: 2'',
          ''Overall accuracy: 66.7%'', ''Average question duration: 60.0s'',
          ''Fastest question: 30s, Slowest question: 90s'',
          ''Questions finished after 240s: 0'',
          LF # ''Per-session accuracy (most recent first):'',
          ''2025-01-01 10:00:00 | attempted=3 correct=2 acc=66.7% avg_q=60.0s'',
          ''--- end summary ---'' @ [LF]]"
  by code_simp

end
